theory Spec2Isabelle
  imports Main
begin

section \<open>Python values used by the card engine\<close>

text \<open>
  The sources are Python 2 (\<^verbatim>\<open>src/card.py\<close>, \<^verbatim>\<open>src/play.py\<close>). Strings are byte
  strings, so \<^typ>\<open>string\<close> models them directly. Exceptions are values of the type
  \<open>error\<close>; an operation that mutates an object or the globals returns an \<open>outcome\<close>:
  \<open>Ok\<close> with what it returns, or \<open>Raised\<close> with the exception and the state that was
  reached when the exception left the operation.
\<close>

datatype error =
  ZoneError | CardNotFoundError | CommandError
  | AttributeError | IndexError | ValueError

datatype ('a, 's) outcome = Ok 'a | Raised error 's

subsection \<open>Strings\<close>

text \<open>\<^verbatim>\<open>s.startswith(p)\<close>.\<close>

fun startswith :: "string \<Rightarrow> string \<Rightarrow> bool" where
  "startswith s [] = True"
| "startswith [] (p # ps) = False"
| "startswith (c # cs) (p # ps) = (c = p \<and> startswith cs ps)"

text \<open>\<^verbatim>\<open>p in s\<close> on strings: \<open>p\<close> occurs in \<open>s\<close> as a contiguous substring.\<close>

fun substr :: "string \<Rightarrow> string \<Rightarrow> bool" where
  "substr p [] = (p = [])"
| "substr p (c # cs) = (startswith (c # cs) p \<or> substr p cs)"

text \<open>\<^verbatim>\<open>s.endswith(p)\<close>.\<close>

definition endswith :: "string \<Rightarrow> string \<Rightarrow> bool" where
  "endswith s p = startswith (rev s) (rev p)"

text \<open>\<^verbatim>\<open>s.split(sep)\<close> for a one-character separator.\<close>

fun split_chr :: "char \<Rightarrow> string \<Rightarrow> string list" where
  "split_chr sep [] = [[]]"
| "split_chr sep (c # cs) =
     (if c = sep then [] # split_chr sep cs
      else (case split_chr sep cs of
              [] \<Rightarrow> [[c]]
            | w # ws \<Rightarrow> (c # w) # ws))"

text \<open>\<^verbatim>\<open>" ".join(ws)\<close>.\<close>

fun join_sp :: "string list \<Rightarrow> string" where
  "join_sp [] = []"
| "join_sp [w] = w"
| "join_sp (w # v # ws) = w @ '' '' @ join_sp (v # ws)"

text \<open>The whitespace of \<^verbatim>\<open>str.rstrip()\<close> and \<^verbatim>\<open>str.strip()\<close>: space, tab, line feed,
  vertical tab, form feed, carriage return.\<close>

definition is_space :: "char \<Rightarrow> bool" where
  "is_space c = (c \<in> set [CHR '' '', CHR 0x09, CHR 0x0A, CHR 0x0B, CHR 0x0C, CHR 0x0D])"

definition rstrip :: "string \<Rightarrow> string" where
  "rstrip s = rev (dropWhile is_space (rev s))"

definition strip :: "string \<Rightarrow> string" where
  "strip s = dropWhile is_space (rstrip s)"

text \<open>\<^verbatim>\<open>str.lower()\<close>, \<^verbatim>\<open>str.upper()\<close> and \<^verbatim>\<open>str.capitalize()\<close> of Python 2 byte strings:
  only the ASCII letters change.\<close>

definition lower_chr :: "char \<Rightarrow> char" where
  "lower_chr c =
     (case map_of (zip ''ABCDEFGHIJKLMNOPQRSTUVWXYZ'' ''abcdefghijklmnopqrstuvwxyz'') c of
        Some d \<Rightarrow> d
      | None \<Rightarrow> c)"

definition upper_chr :: "char \<Rightarrow> char" where
  "upper_chr c =
     (case map_of (zip ''abcdefghijklmnopqrstuvwxyz'' ''ABCDEFGHIJKLMNOPQRSTUVWXYZ'') c of
        Some d \<Rightarrow> d
      | None \<Rightarrow> c)"

definition lower :: "string \<Rightarrow> string" where
  "lower s = map lower_chr s"

fun capitalize :: "string \<Rightarrow> string" where
  "capitalize [] = []"
| "capitalize (c # cs) = upper_chr c # map lower_chr cs"

text \<open>\<^verbatim>\<open>int(s)\<close> on a string: surrounding whitespace is dropped, then an optional sign and
  at least one decimal digit; anything else is a \<^verbatim>\<open>ValueError\<close> (\<open>None\<close>).\<close>

definition digit_val :: "char \<Rightarrow> nat option" where
  "digit_val c = map_of (zip ''0123456789'' [0, 1, 2, 3, 4, 5, 6, 7, 8, 9]) c"

fun digits_val :: "nat \<Rightarrow> string \<Rightarrow> nat option" where
  "digits_val acc [] = Some acc"
| "digits_val acc (c # cs) =
     (case digit_val c of
        None \<Rightarrow> None
      | Some d \<Rightarrow> digits_val (10 * acc + d) cs)"

definition py_int :: "string \<Rightarrow> int option" where
  "py_int s =
     (case strip s of
        [] \<Rightarrow> None
      | c # cs \<Rightarrow>
          (if c = CHR ''-'' then
             (if cs = [] then None else map_option (\<lambda>n. - int n) (digits_val 0 cs))
           else if c = CHR ''+'' then
             (if cs = [] then None else map_option int (digits_val 0 cs))
           else map_option int (digits_val 0 (c # cs))))"

section \<open>The card entity (\<^verbatim>\<open>src/card.py\<close>, class \<^verbatim>\<open>Card\<close>)\<close>

subsection \<open>Class constants\<close>

definition BATTLEFIELD :: string where "BATTLEFIELD = ''Battlefield''"
definition HAND :: string where "HAND = ''Hand''"
definition LIBRARY :: string where "LIBRARY = ''Library''"
definition GRAVEYARD :: string where "GRAVEYARD = ''Graveyard''"
definition EXILE :: string where "EXILE = ''Exile''"
definition TOP :: string where "TOP = ''Top''"
definition BOTTOM :: string where "BOTTOM = ''Bottom''"
definition COMMAND :: string where "COMMAND = ''Command''"

definition ZONES :: "string list" where
  "ZONES = [BATTLEFIELD, COMMAND, EXILE, GRAVEYARD, HAND, LIBRARY, TOP, BOTTOM]"

definition ARTIFACT :: string where "ARTIFACT = ''Artifact''"
definition CREATURE :: string where "CREATURE = ''Creature''"
definition ENCHANTMENT :: string where "ENCHANTMENT = ''Enchantment''"
definition EMBLEM :: string where "EMBLEM = ''Emblem''"
definition INSTANT :: string where "INSTANT = ''Instant''"
definition LAND :: string where "LAND = ''Land''"
definition PLANESWALKER :: string where "PLANESWALKER = ''Planeswalker''"
definition SORCERY :: string where "SORCERY = ''Sorcery''"
definition TOKEN :: string where "TOKEN = ''Token''"

definition TYPES :: "string list" where
  "TYPES = [CREATURE, PLANESWALKER, ENCHANTMENT, ARTIFACT, LAND, INSTANT, SORCERY, TOKEN, EMBLEM]"

definition HASTE :: string where "HASTE = ''Haste''"
definition MORPH :: string where "MORPH = ''Morph''"
definition MEGAMORPH :: string where "MEGAMORPH = ''Megamorph''"
definition INDESTRUCTIBLE :: string where "INDESTRUCTIBLE = ''Indestructible''"

definition KEYWORDS :: "string list" where
  "KEYWORDS =
     [''Changeling'', ''Deathtouch'', ''Defender'', ''Double strike'', ''First strike'',
      ''Flash'', ''Flying'', ''Forestwalk'', HASTE, ''Hexproof'', INDESTRUCTIBLE, ''Infect'',
      ''Islandwalk'', ''Lifelink'', MEGAMORPH, ''Menace'', MORPH, ''Mountainwalk'',
      ''Persist'', ''Plainswalk'', ''Prowess'', ''Reach'', ''Skulk'', ''Shadow'', ''Shroud'',
      ''Swampwalk'', ''Trample'', ''Undying'', ''Vigilance'', ''Wither'']"

subsection \<open>The object\<close>

text \<open>
  One field per private attribute of \<^verbatim>\<open>Card\<close>, under the attribute's name with the
  prefix \<open>c_\<close>. \<^verbatim>\<open>__power\<close> and \<^verbatim>\<open>__toughness\<close> are assigned by the constructor only when
  the type line contains \<^verbatim>\<open>Creature\<close>; \<open>None\<close> is the attribute that was never assigned,
  and reading it is an \<^verbatim>\<open>AttributeError\<close>.

  \<^verbatim>\<open>__backSide\<close> is \<^verbatim>\<open>None\<close>, the name of the other face (a string, until the loader
  links the faces) or the other face's \<^verbatim>\<open>Card\<close>. The accessors read the attributes of
  the other face and never follow its own \<^verbatim>\<open>__backSide\<close>, and a linked face is in no
  zone list, so the other face is held by value in \<open>BackCard\<close> as a record of every
  attribute but that link.
\<close>

record cardbase =
  c_name :: string
  c_cost :: string
  c_color :: string
  c_type :: string
  c_subtype :: string
  c_powerMod :: int
  c_toughnessMod :: int
  c_countersMod :: int
  c_counters :: int
  c_plusone :: int
  c_summoningSickness :: bool
  c_power :: "int option"
  c_toughness :: "int option"
  c_hasAnthem :: bool
  c_anthemPower :: int
  c_anthemToughness :: int
  c_anthemType :: "string list"
  c_anthemKeywords :: "string list"
  c_anthemPowerBonus :: int
  c_anthemToughnessBonus :: int
  c_anthemKeywordMod :: "string list"
  c_text :: string
  c_commander :: bool
  c_flip :: bool
  c_split :: bool
  c_linked :: bool
  c_zone :: string
  c_tapped :: bool
  c_transformed :: bool
  c_keywords :: "string list"
  c_keywordMods :: "string list"
  c_facedown :: bool
  c_morph :: bool

datatype backside = BackNone | BackName string | BackCard cardbase

record card = cardbase +
  c_backSide :: backside

text \<open>Reading an attribute \<open>f\<close> of \<^verbatim>\<open>self.__backSide\<close>.\<close>

definition back_attr :: "(cardbase \<Rightarrow> 'a) \<Rightarrow> card \<Rightarrow> error + 'a" where
  "back_attr f c =
     (case c_backSide c of
        BackCard b \<Rightarrow> Inr (f b)
      | _ \<Rightarrow> Inl AttributeError)"

text \<open>The test \<^verbatim>\<open>self.__transformed or self.__facedown\<close> that every redirecting accessor
  starts with.\<close>

definition shows_back :: "card \<Rightarrow> bool" where
  "shows_back c = (c_transformed c \<or> c_facedown c)"

subsection \<open>Accessors\<close>

definition Card_color :: "card \<Rightarrow> error + string" where
  "Card_color c = (if shows_back c then back_attr c_color c else Inr (c_color c))"

definition Card_commander :: "card \<Rightarrow> bool" where
  "Card_commander c = c_commander c"

definition Card_counters :: "card \<Rightarrow> error + int" where
  "Card_counters c =
     (if shows_back c then
        (case back_attr c_counters c of
           Inl e \<Rightarrow> Inl e
         | Inr n \<Rightarrow> Inr (n + c_countersMod c + \<bar>c_plusone c\<bar>))
      else Inr (c_counters c + c_countersMod c + \<bar>c_plusone c\<bar>))"

definition Card_facedown :: "card \<Rightarrow> bool" where
  "Card_facedown c = c_facedown c"

definition Card_keywords :: "card \<Rightarrow> string list" where
  "Card_keywords c = c_keywords c @ c_anthemKeywordMod c @ c_keywordMods c"

definition Card_name :: "card \<Rightarrow> error + string" where
  "Card_name c = (if shows_back c then back_attr c_name c else Inr (c_name c))"

text \<open>\<^verbatim>\<open>power()\<close> and \<^verbatim>\<open>toughness()\<close> fall off the end of the method when the type line
  has no \<^verbatim>\<open>Creature\<close>: they return \<^verbatim>\<open>None\<close>, here \<open>Inr None\<close>.\<close>

definition clamp0 :: "int \<Rightarrow> int" where
  "clamp0 val = (if val < 0 then 0 else val)"

definition Card_power :: "card \<Rightarrow> error + int option" where
  "Card_power c =
     (if substr CREATURE (c_type c) then
        (if shows_back c then
           (case back_attr c_power c of
              Inl e \<Rightarrow> Inl e
            | Inr None \<Rightarrow> Inl AttributeError
            | Inr (Some p) \<Rightarrow>
                Inr (Some (clamp0 (p + c_powerMod c + c_anthemPowerBonus c + c_plusone c))))
         else
           (case c_power c of
              None \<Rightarrow> Inl AttributeError
            | Some p \<Rightarrow>
                Inr (Some (clamp0 (p + c_powerMod c + c_anthemPowerBonus c + c_plusone c)))))
      else Inr None)"

definition Card_rulestext :: "card \<Rightarrow> error + string" where
  "Card_rulestext c = (if shows_back c then back_attr c_text c else Inr (c_text c))"

definition Card_subtype :: "card \<Rightarrow> error + string" where
  "Card_subtype c = (if shows_back c then back_attr c_subtype c else Inr (c_subtype c))"

definition Card_summonSick :: "card \<Rightarrow> bool" where
  "Card_summonSick c = (if substr CREATURE (c_type c) then c_summoningSickness c else False)"

definition Card_tapped :: "card \<Rightarrow> bool" where
  "Card_tapped c = c_tapped c"

definition Card_toughness :: "card \<Rightarrow> error + int option" where
  "Card_toughness c =
     (if substr CREATURE (c_type c) then
        (if shows_back c then
           (case back_attr c_toughness c of
              Inl e \<Rightarrow> Inl e
            | Inr None \<Rightarrow> Inl AttributeError
            | Inr (Some t) \<Rightarrow>
                Inr (Some (clamp0 (t + c_toughnessMod c + c_anthemToughnessBonus c + c_plusone c))))
         else
           (case c_toughness c of
              None \<Rightarrow> Inl AttributeError
            | Some t \<Rightarrow>
                Inr (Some (clamp0 (t + c_toughnessMod c + c_anthemToughnessBonus c + c_plusone c)))))
      else Inr None)"

definition Card_type :: "card \<Rightarrow> error + string" where
  "Card_type c = (if shows_back c then back_attr c_type c else Inr (c_type c))"

definition Card_zone :: "card \<Rightarrow> string" where
  "Card_zone c = c_zone c"

subsection \<open>Mutators\<close>

definition Card_anthemPowerBonus :: "int \<Rightarrow> card \<Rightarrow> card" where
  "Card_anthemPowerBonus n c = c\<lparr>c_anthemPowerBonus := c_anthemPowerBonus c + n\<rparr>"

definition Card_anthemToughnessBonus :: "int \<Rightarrow> card \<Rightarrow> card" where
  "Card_anthemToughnessBonus n c = c\<lparr>c_anthemToughnessBonus := c_anthemToughnessBonus c + n\<rparr>"

definition Card_anthemKeywordMod :: "string list \<Rightarrow> card \<Rightarrow> card" where
  "Card_anthemKeywordMod keywords c = c\<lparr>c_anthemKeywordMod := c_anthemKeywordMod c @ keywords\<rparr>"

definition Card_resetAnthem :: "card \<Rightarrow> card" where
  "Card_resetAnthem c =
     c\<lparr>c_anthemPowerBonus := 0, c_anthemToughnessBonus := 0, c_anthemKeywordMod := []\<rparr>"

definition Card_modCounters :: "int \<Rightarrow> card \<Rightarrow> card" where
  "Card_modCounters n c =
     (if c_zone c = BATTLEFIELD then
        (let c1 = c\<lparr>c_countersMod := c_countersMod c + n\<rparr>
         in if c_counters c1 + c_countersMod c1 < 0
            then c1\<lparr>c_countersMod := 0 - c_counters c1\<rparr>
            else c1)
      else c)"

text \<open>The constructor call \<^verbatim>\<open>Card("Morph", "", "Creature", "", 2, 2, "", None)\<close> of
  \<^verbatim>\<open>__morphToken\<close>, evaluated: the empty cost gives the colour \<^verbatim>\<open>Colorless\<close>, the type
  line sets power, toughness and summoning sickness, and the empty text yields no
  keyword and no anthem.\<close>

definition morph_face :: cardbase where
  "morph_face =
     \<lparr>c_name = ''Morph'', c_cost = [], c_color = ''Colorless'', c_type = ''Creature'',
      c_subtype = [], c_powerMod = 0, c_toughnessMod = 0, c_countersMod = 0,
      c_counters = 0, c_plusone = 0, c_summoningSickness = True,
      c_power = Some 2, c_toughness = Some 2,
      c_hasAnthem = False, c_anthemPower = 0, c_anthemToughness = 0,
      c_anthemType = [], c_anthemKeywords = [],
      c_anthemPowerBonus = 0, c_anthemToughnessBonus = 0, c_anthemKeywordMod = [],
      c_text = [], c_commander = False, c_flip = False, c_split = False,
      c_linked = False, c_zone = LIBRARY, c_tapped = False, c_transformed = False,
      c_keywords = [], c_keywordMods = [], c_facedown = False, c_morph = False\<rparr>"

definition Card_linkBackSide :: "cardbase \<Rightarrow> card \<Rightarrow> card" where
  "Card_linkBackSide b c =
     (let c1 = c\<lparr>c_backSide := BackCard b, c_linked := True\<rparr>
      in if c_split c1 then c1\<lparr>c_name := c_name c1 @ ''/'' @ c_name b\<rparr> else c1)"

definition Card_morphToken :: "card \<Rightarrow> card" where
  "Card_morphToken c = Card_linkBackSide morph_face c"

definition Card_modKeywords :: "string \<Rightarrow> card \<Rightarrow> card" where
  "Card_modKeywords keyword c =
     (if keyword \<in> set KEYWORDS \<and> keyword \<noteq> MORPH \<and> keyword \<noteq> MEGAMORPH then
        (if keyword \<notin> set (Card_keywords c) then
           (let c1 = c\<lparr>c_keywordMods := c_keywordMods c @ [keyword]\<rparr>;
                c2 = (if keyword = HASTE then c1\<lparr>c_summoningSickness := False\<rparr> else c1)
            in if keyword = MORPH \<or> keyword = MEGAMORPH
               then Card_morphToken (c2\<lparr>c_morph := True\<rparr>)
               else c2)
         else c)
      else c)"

definition Card_modPlusOne :: "int \<Rightarrow> card \<Rightarrow> card" where
  "Card_modPlusOne n c =
     (if substr CREATURE (c_type c) \<and> c_zone c = BATTLEFIELD
      then c\<lparr>c_plusone := c_plusone c + n\<rparr> else c)"

definition Card_modPower :: "int \<Rightarrow> card \<Rightarrow> card" where
  "Card_modPower n c =
     (if substr CREATURE (c_type c) \<and> c_zone c = BATTLEFIELD
      then c\<lparr>c_powerMod := c_powerMod c + n\<rparr> else c)"

definition Card_modToughness :: "int \<Rightarrow> card \<Rightarrow> card" where
  "Card_modToughness n c =
     (if substr CREATURE (c_type c) \<and> c_zone c = BATTLEFIELD
      then c\<lparr>c_toughnessMod := c_toughnessMod c + n\<rparr> else c)"

definition Card_setCommander :: "card \<Rightarrow> card" where
  "Card_setCommander c = c\<lparr>c_commander := True, c_zone := COMMAND\<rparr>"

subsection \<open>Manipulating the card\<close>

definition Card_enter :: "card \<Rightarrow> card" where
  "Card_enter c =
     (let c1 = (if substr (c_name c @ '' enters the battlefield tapped'') (c_text c)
                then c\<lparr>c_tapped := True\<rparr> else c)
      in if c_type c1 = CREATURE \<and> HASTE \<in> set (c_keywords c1)
         then c1\<lparr>c_summoningSickness := False\<rparr> else c1)"

definition Card_play :: "card \<Rightarrow> card" where
  "Card_play c =
     (if substr INSTANT (c_type c) \<or> substr SORCERY (c_type c) then
        (if substr (''Exile '' @ c_name c) (c_text c)
         then c\<lparr>c_zone := EXILE\<rparr>
         else c\<lparr>c_zone := GRAVEYARD\<rparr>)
      else if substr ARTIFACT (c_type c) \<or> substr CREATURE (c_type c)
              \<or> substr ENCHANTMENT (c_type c) \<or> substr LAND (c_type c) then
        Card_enter (c\<lparr>c_zone := BATTLEFIELD\<rparr>)
      else if substr PLANESWALKER (c_type c) then
        Card_enter (c\<lparr>c_zone := BATTLEFIELD\<rparr>)
      else c)"

definition Card_nextTurn :: "card \<Rightarrow> card" where
  "Card_nextTurn c =
     (if substr CREATURE (c_type c) then c\<lparr>c_summoningSickness := False\<rparr> else c)"

definition Card_endTurn :: "card \<Rightarrow> card" where
  "Card_endTurn c = c\<lparr>c_powerMod := 0, c_toughnessMod := 0, c_keywordMods := []\<rparr>"

definition Card_tap :: "card \<Rightarrow> card" where
  "Card_tap c = (if c_zone c = BATTLEFIELD then c\<lparr>c_tapped := True\<rparr> else c)"

definition Card_untap :: "card \<Rightarrow> card" where
  "Card_untap c = c\<lparr>c_tapped := False\<rparr>"

definition Card_discard :: "card \<Rightarrow> card" where
  "Card_discard c = (if c_zone c = HAND then c\<lparr>c_zone := GRAVEYARD\<rparr> else c)"

text \<open>\<^verbatim>\<open>draw\<close> means to raise \<^verbatim>\<open>ZoneError(Card.Hand)\<close>, but the class has no attribute
  \<^verbatim>\<open>Hand\<close> (the constant is \<^verbatim>\<open>HAND\<close>): evaluating the argument raises
  \<^verbatim>\<open>AttributeError\<close> before any \<^verbatim>\<open>ZoneError\<close> is built.\<close>

definition Card_draw :: "card \<Rightarrow> (card, card) outcome" where
  "Card_draw c =
     (if c_zone c = LIBRARY then Ok (c\<lparr>c_zone := HAND\<rparr>) else Raised AttributeError c)"

definition Card_transform :: "card \<Rightarrow> card" where
  "Card_transform c = (if c_flip c then c\<lparr>c_transformed := \<not> c_transformed c\<rparr> else c)"

definition Card_morph :: "card \<Rightarrow> card" where
  "Card_morph c = (if c_morph c then c\<lparr>c_facedown := \<not> c_facedown c\<rparr> else c)"

definition Card_leave :: "card \<Rightarrow> card" where
  "Card_leave c =
     (let c1 = (if c_transformed c \<or> c_facedown c then Card_transform c else c);
          c2 = c1\<lparr>c_powerMod := 0, c_toughnessMod := 0, c_countersMod := 0, c_tapped := False\<rparr>
      in if substr CREATURE (c_type c2) \<and> HASTE \<notin> set (c_keywords c2)
         then c2\<lparr>c_summoningSickness := True\<rparr> else c2)"

definition Card_move :: "string \<Rightarrow> card \<Rightarrow> (card, card) outcome" where
  "Card_move zone c =
     (let leaves = (c_zone c = BATTLEFIELD \<and> zone \<noteq> BATTLEFIELD)
      in if c_commander c then
           (let c1 = (if zone \<noteq> HAND \<and> zone \<noteq> BATTLEFIELD
                      then c\<lparr>c_zone := COMMAND\<rparr> else c\<lparr>c_zone := zone\<rparr>)
            in Ok (if leaves then Card_leave c1 else c1))
         else if substr EMBLEM (c_type c) then
           (if zone \<noteq> BATTLEFIELD then Raised ZoneError c
            else (let c1 = c\<lparr>c_zone := BATTLEFIELD\<rparr>
                  in Ok (if leaves then Card_leave c1 else c1)))
         else
           (if zone \<noteq> COMMAND then
              (let c1 = c\<lparr>c_zone := zone\<rparr>
               in Ok (if leaves then Card_leave c1 else c1))
            else Raised ZoneError c))"

subsection \<open>Keyword extraction (\<^verbatim>\<open>Card.__parseText\<close>, first part)\<close>

text \<open>
  The two nested loops of \<^verbatim>\<open>__parseText\<close>. The locals \<^verbatim>\<open>things\<close> and \<^verbatim>\<open>validLine\<close> are
  initialised once, before the loop over the lines, and are carried from line to line;
  \<open>scan_words\<close> is the inner loop over the comma-separated words of one line,
  \<open>scan_lines\<close> the outer loop, whose third component is \<^verbatim>\<open>self.__keywords\<close>.
\<close>

fun scan_words :: "string list \<Rightarrow> string list \<times> bool \<Rightarrow> string list \<times> bool" where
  "scan_words [] (things, validLine) = (things, validLine)"
| "scan_words (word # words) (things, validLine) =
     (let word1 = (if startswith word '' '' then drop 1 word else word);
          word2 = capitalize (rstrip word1)
      in if word2 \<in> set KEYWORDS
         then scan_words words (things @ [word2], validLine)
         else scan_words words (things, False))"

fun scan_lines ::
  "string list \<Rightarrow> string list \<times> bool \<times> string list \<Rightarrow> string list \<times> bool \<times> string list" where
  "scan_lines [] st = st"
| "scan_lines (line # lines) (things, validLine, keywords) =
     (case scan_words (split_chr CHR '','' line) (things, validLine) of
        (things', validLine') \<Rightarrow>
          scan_lines lines
            (things', validLine', if validLine' then keywords @ things' else keywords))"

definition parseText_keywords :: "string \<Rightarrow> string list" where
  "parseText_keywords text =
     (case scan_lines (split_chr CHR 0x0A text) ([], True, []) of
        (things, validLine, keywords) \<Rightarrow> keywords)"

text \<open>
  The search for \<^verbatim>\<open>Morph|Megamorph X?[1-9]?[0-9]*[WUBRGC]*\<close>: the leftmost position at
  which the text continues with \<^verbatim>\<open>Morph\<close>, or with \<^verbatim>\<open>Megamorph\<close> and a space (the rest
  of the second alternative also matches the empty string). The first word of the match
  is then \<^verbatim>\<open>Morph\<close> or \<^verbatim>\<open>Megamorph\<close>, and that keyword is appended.
\<close>

fun morph_search :: "string \<Rightarrow> string list" where
  "morph_search [] = []"
| "morph_search (c # cs) =
     (if startswith (c # cs) ''Morph'' then [MORPH]
      else if startswith (c # cs) ''Megamorph '' then [MEGAMORPH]
      else morph_search cs)"

text \<open>\<^verbatim>\<open>self.__keywords\<close> after \<^verbatim>\<open>__parseText\<close>; the anthem fields that the rest of the
  method fills are fields of the record and are not computed here.\<close>

definition parseText :: "string \<Rightarrow> string list" where
  "parseText text = parseText_keywords text @ morph_search text"

section \<open>The game state (\<^verbatim>\<open>src/play.py\<close>)\<close>

text \<open>
  The module's globals that the operations below read or write, one field each under
  the global's name with the prefix \<open>g_\<close>. Python lists hold references: \<open>g_cards\<close> is
  the object store (a card's identity is its key), and the zone lists hold keys, so
  \<^verbatim>\<open>card in hand\<close>, \<^verbatim>\<open>field.remove(card)\<close> and \<^verbatim>\<open>card == commander\<close> (the class defines no
  \<^verbatim>\<open>__eq__\<close>) compare identities. \<^verbatim>\<open>commander\<close> is \<^verbatim>\<open>False\<close> (\<open>None\<close>) or the commander's
  card. \<^verbatim>\<open>random.shuffle\<close> is the \<open>n\<close>-th call of an arbitrary generator \<open>g_rng\<close>, and
  \<open>g_shuffles\<close> counts the calls made so far.
\<close>

record game =
  g_cards :: "nat \<Rightarrow> card"
  g_deck :: "nat list"
  g_library :: "nat list"
  g_field :: "nat list"
  g_hand :: "nat list"
  g_grave :: "nat list"
  g_exiled :: "nat list"
  g_commander :: "nat option"
  g_p1Win :: bool
  g_p2Win :: bool
  g_GAME_OVER :: bool
  g_revealed :: bool
  g_commandPlayCount :: int
  g_rng :: "nat \<Rightarrow> nat list \<Rightarrow> nat list"
  g_shuffles :: nat

definition set_card :: "nat \<Rightarrow> card \<Rightarrow> game \<Rightarrow> game" where
  "set_card i c s = s\<lparr>g_cards := (g_cards s)(i := c)\<rparr>"

text \<open>An argument that is either a type name or a card (\<^verbatim>\<open>if card in Card.TYPES\<close>), as
  \<^verbatim>\<open>getCard\<close> returns it.\<close>

datatype target = TypeName string | CardRef nat

text \<open>\<^verbatim>\<open>xs.remove(x)\<close>: the first occurrence goes; \<^verbatim>\<open>ValueError\<close> (\<open>None\<close>) when there is
  none.\<close>

definition list_remove :: "nat \<Rightarrow> nat list \<Rightarrow> nat list option" where
  "list_remove x xs = (if x \<in> set xs then Some (remove1 x xs) else None)"

definition shuffle :: "game \<Rightarrow> game" where
  "shuffle s =
     s\<lparr>g_library := g_rng s (g_shuffles s) (g_library s), g_shuffles := Suc (g_shuffles s)\<rparr>"

subsection \<open>Looking up zones and cards\<close>

fun zone_scan :: "string \<Rightarrow> string list \<Rightarrow> string option \<times> bool \<Rightarrow> string option \<times> bool" where
  "zone_scan str [] (ret, valid) = (ret, valid)"
| "zone_scan str (zone # zones) (ret, valid) =
     (if substr (lower str) (lower zone)
      then zone_scan str zones (Some zone, if ret \<noteq> None then False else valid)
      else zone_scan str zones (ret, valid))"

definition getZoneNameFromString :: "string \<Rightarrow> string option" where
  "getZoneNameFromString str =
     (case zone_scan (lower str) ZONES (None, True) of
        (ret, valid) \<Rightarrow> if valid then ret else None)"

text \<open>The two search loops of \<^verbatim>\<open>getCard\<close>: \<open>m\<close> is the test on a card's name, \<open>skip\<close> the
  number of matches still to pass over, \<open>ret\<close> the last match seen.\<close>

fun find_skip :: "(nat \<Rightarrow> error + bool) \<Rightarrow> nat list \<Rightarrow> nat \<Rightarrow> nat option \<Rightarrow> error + nat option" where
  "find_skip m [] skip ret = Inr ret"
| "find_skip m (crd # zone) skip ret =
     (case m crd of
        Inl e \<Rightarrow> Inl e
      | Inr b \<Rightarrow>
          (if b then (if skip = 0 then Inr (Some crd)
                      else find_skip m zone (skip - 1) (Some crd))
           else find_skip m zone skip ret))"

definition quoted :: "string \<Rightarrow> bool" where
  "quoted cardname =
     (startswith cardname [CHR 0x22] \<and> endswith cardname [CHR 0x22] \<and> length cardname > 2)"

definition name_is :: "game \<Rightarrow> string \<Rightarrow> nat \<Rightarrow> error + bool" where
  "name_is s cardname crd =
     (case Card_name (g_cards s crd) of
        Inl e \<Rightarrow> Inl e
      | Inr n \<Rightarrow> Inr (lower cardname = lower n))"

definition name_has :: "game \<Rightarrow> string \<Rightarrow> nat \<Rightarrow> error + bool" where
  "name_has s cardname crd =
     (case Card_name (g_cards s crd) of
        Inl e \<Rightarrow> Inl e
      | Inr n \<Rightarrow> Inr (substr (lower cardname) (lower n)))"

text \<open>The special case of \<^verbatim>\<open>getCard\<close> for a revealed top card: \<open>Some\<close> what it returns,
  \<open>None\<close> when the search goes on.\<close>

definition revealed_top :: "game \<Rightarrow> string \<Rightarrow> error + nat option" where
  "revealed_top s cardname =
     (case g_library s of
        [] \<Rightarrow> Inl IndexError
      | topc # rest \<Rightarrow>
          (case Card_name (g_cards s topc) of
             Inl e \<Rightarrow> Inl e
           | Inr n \<Rightarrow>
               (if quoted cardname then
                  (if butlast (tl cardname) = n then Inr (Some topc) else Inr None)
                else if substr cardname (lower n) then Inr (Some topc)
                else Inr None)))"

definition search_zone :: "game \<Rightarrow> string \<Rightarrow> nat \<Rightarrow> nat list \<Rightarrow> error + target" where
  "search_zone s cardname skip zone =
     (case (if quoted cardname
            then find_skip (name_is s (butlast (tl cardname))) zone skip None
            else find_skip (name_has s cardname) zone skip None) of
        Inl e \<Rightarrow> Inl e
      | Inr None \<Rightarrow> Inl CardNotFoundError
      | Inr (Some crd) \<Rightarrow> Inr (CardRef crd))"

text \<open>\<^verbatim>\<open>getCard(args, zone, cmd)\<close>; \<open>zone\<close> is \<open>None\<close> for Python's \<^verbatim>\<open>None\<close>.\<close>

definition getCard :: "game \<Rightarrow> string list \<Rightarrow> nat list option \<Rightarrow> string option \<Rightarrow> error + target" where
  "getCard s args zone cmd =
     (if args = [] then Inl IndexError
      else
        (let (skip, cardname) =
               (case py_int (last args) of
                  Some n \<Rightarrow> (if n - 1 < 0 then 0 else nat (n - 1), join_sp (butlast args))
                | None \<Rightarrow> (0, join_sp args))
         in if cardname = ''card'' \<and> zone \<noteq> None \<and> zone \<noteq> Some []
            then Inr (CardRef (hd (the zone)))
            else
              (case find (\<lambda>typeName. lower cardname = lower typeName \<and> typeName \<noteq> EMBLEM) TYPES of
                 Some typeName \<Rightarrow> Inr (TypeName typeName)
               | None \<Rightarrow>
                   (case zone of
                      None \<Rightarrow> Inl CardNotFoundError
                    | Some [] \<Rightarrow> Inl CardNotFoundError
                    | Some (z # zs) \<Rightarrow>
                        (if g_revealed s \<and> z # zs = g_hand s \<and> cmd = Some ''play'' then
                           (case revealed_top s cardname of
                              Inl e \<Rightarrow> Inl e
                            | Inr (Some topc) \<Rightarrow> Inr (CardRef topc)
                            | Inr None \<Rightarrow> search_zone s cardname skip (z # zs))
                         else search_zone s cardname skip (z # zs))))))"

subsection \<open>Operations\<close>

definition checkVictory :: "game \<Rightarrow> game" where
  "checkVictory s =
     (let s1 = (if g_p1Win s then s\<lparr>g_GAME_OVER := True\<rparr> else s)
      in if g_p2Win s1 then s1\<lparr>g_GAME_OVER := True\<rparr> else s1)"

text \<open>
  \<^verbatim>\<open>kill(card)\<close> for a card (the \<^verbatim>\<open>else\<close> branch of \<^verbatim>\<open>if card in Card.TYPES\<close>). The type
  line is read after \<^verbatim>\<open>card.move\<close>, that is after \<^verbatim>\<open>leave\<close> has run.
\<close>

definition kill_card :: "nat \<Rightarrow> game \<Rightarrow> (game, game) outcome" where
  "kill_card crd s =
     (if INDESTRUCTIBLE \<notin> set (Card_keywords (g_cards s crd)) then
        (case Card_move GRAVEYARD (g_cards s crd) of
           Raised e c \<Rightarrow> Raised e s
         | Ok c' \<Rightarrow>
             (let s1 = set_card crd c' s
              in case list_remove crd (g_field s1) of
                   None \<Rightarrow> Raised ValueError s1
                 | Some fld \<Rightarrow>
                     (let s2 = s1\<lparr>g_field := fld\<rparr>
                      in case Card_type (g_cards s2 crd) of
                           Inl e \<Rightarrow> Raised e s2
                         | Inr t \<Rightarrow>
                             (if \<not> substr TOKEN t \<and> Some crd \<noteq> g_commander s2
                              then Ok (s2\<lparr>g_grave := crd # g_grave s2\<rparr>)
                              else Ok s2))))
      else Ok s)"

text \<open>The first loop of the type branch of \<^verbatim>\<open>kill\<close>, over the battlefield list \<open>things\<close>;
  \<open>remove\<close> is the local list of the cards that were moved.\<close>

fun kill_each :: "string \<Rightarrow> nat list \<Rightarrow> game \<Rightarrow> nat list \<Rightarrow> (game \<times> nat list, game) outcome" where
  "kill_each ty [] s remove = Ok (s, remove)"
| "kill_each ty (thing # things) s remove =
     (case Card_type (g_cards s thing) of
        Inl e \<Rightarrow> Raised e s
      | Inr t \<Rightarrow>
          (if substr ty t then
             (if INDESTRUCTIBLE \<notin> set (Card_keywords (g_cards s thing)) then
                (case Card_move GRAVEYARD (g_cards s thing) of
                   Raised e c \<Rightarrow> Raised e s
                 | Ok c' \<Rightarrow> kill_each ty things (set_card thing c' s) (remove @ [thing]))
              else kill_each ty things s remove)
           else kill_each ty things s remove))"

text \<open>The second loop of the type branches of \<^verbatim>\<open>kill\<close> and \<^verbatim>\<open>sacrifice\<close>.\<close>

fun bury_each :: "nat list \<Rightarrow> game \<Rightarrow> (game, game) outcome" where
  "bury_each [] s = Ok s"
| "bury_each (thing # things) s =
     (case list_remove thing (g_field s) of
        None \<Rightarrow> Raised ValueError s
      | Some fld \<Rightarrow>
          (let s1 = s\<lparr>g_field := fld\<rparr>
           in case Card_type (g_cards s1 thing) of
                Inl e \<Rightarrow> Raised e s1
              | Inr t \<Rightarrow>
                  (if \<not> substr TOKEN t \<and> Some thing \<noteq> g_commander s1
                   then bury_each things (s1\<lparr>g_grave := thing # g_grave s1\<rparr>)
                   else bury_each things s1)))"

text \<open>A string that is no type name has no method \<^verbatim>\<open>keywords\<close>, \<^verbatim>\<open>move\<close> or
  \<^verbatim>\<open>discard\<close>: \<^verbatim>\<open>AttributeError\<close>.\<close>

definition kill :: "target \<Rightarrow> game \<Rightarrow> (game, game) outcome" where
  "kill crd s =
     (case crd of
        TypeName ty \<Rightarrow>
          (if ty \<in> set TYPES then
             (case kill_each ty (g_field s) s [] of
                Raised e s1 \<Rightarrow> Raised e s1
              | Ok (s1, remove) \<Rightarrow> bury_each remove s1)
           else Raised AttributeError s)
      | CardRef i \<Rightarrow> kill_card i s)"

text \<open>\<^verbatim>\<open>stateBased\<close>: the first loop collects \<^verbatim>\<open>removing\<close>, the second kills each entry.\<close>

fun removing_of :: "game \<Rightarrow> nat list \<Rightarrow> error + nat list" where
  "removing_of s [] = Inr []"
| "removing_of s (crd # cards) =
     (case Card_type (g_cards s crd) of
        Inl e \<Rightarrow> Inl e
      | Inr t \<Rightarrow>
          (case (if substr CREATURE t then Card_toughness (g_cards s crd) else Inr None) of
             Inl e \<Rightarrow> Inl e
           | Inr tough \<Rightarrow>
               (case (if substr PLANESWALKER t then map_sum id Some (Card_counters (g_cards s crd))
                      else Inr None) of
                  Inl e \<Rightarrow> Inl e
                | Inr cnt \<Rightarrow>
                    (case removing_of s cards of
                       Inl e \<Rightarrow> Inl e
                     | Inr rest \<Rightarrow>
                         Inr ((if tough = Some 0 then [crd] else [])
                              @ (if cnt = Some 0 then [crd] else []) @ rest)))))"

fun kill_all :: "nat list \<Rightarrow> game \<Rightarrow> (game, game) outcome" where
  "kill_all [] s = Ok s"
| "kill_all (crd # cards) s =
     (case kill (CardRef crd) s of
        Raised e s1 \<Rightarrow> Raised e s1
      | Ok s1 \<Rightarrow> kill_all cards s1)"

definition stateBased :: "game \<Rightarrow> (game, game) outcome" where
  "stateBased s =
     (case removing_of s (g_field s) of
        Inl e \<Rightarrow> Raised e s
      | Inr removing \<Rightarrow> kill_all removing s)"

text \<open>The first loop of the type branches of \<^verbatim>\<open>exile\<close> and \<^verbatim>\<open>sacrifice\<close>: every battlefield
  card of the type is moved to \<open>zone\<close> and recorded in \<^verbatim>\<open>remove\<close>.\<close>

fun move_each :: "string \<Rightarrow> string \<Rightarrow> nat list \<Rightarrow> game \<Rightarrow> nat list \<Rightarrow> (game \<times> nat list, game) outcome" where
  "move_each zone ty [] s remove = Ok (s, remove)"
| "move_each zone ty (thing # things) s remove =
     (case Card_type (g_cards s thing) of
        Inl e \<Rightarrow> Raised e s
      | Inr t \<Rightarrow>
          (if substr ty t then
             (case Card_move zone (g_cards s thing) of
                Raised e c \<Rightarrow> Raised e s
              | Ok c' \<Rightarrow> move_each zone ty things (set_card thing c' s) (remove @ [thing]))
           else move_each zone ty things s remove))"

definition sacrifice_card :: "nat \<Rightarrow> game \<Rightarrow> (game, game) outcome" where
  "sacrifice_card crd s =
     (case Card_move GRAVEYARD (g_cards s crd) of
        Raised e c \<Rightarrow> Raised e s
      | Ok c' \<Rightarrow>
          (let s1 = set_card crd c' s
           in case list_remove crd (g_field s1) of
                None \<Rightarrow> Raised ValueError s1
              | Some fld \<Rightarrow>
                  (let s2 = s1\<lparr>g_field := fld\<rparr>
                   in case Card_type (g_cards s2 crd) of
                        Inl e \<Rightarrow> Raised e s2
                      | Inr t \<Rightarrow>
                          (if \<not> substr TOKEN t \<and> Some crd \<noteq> g_commander s2
                           then Ok (s2\<lparr>g_grave := crd # g_grave s2\<rparr>)
                           else Ok s2))))"

definition sacrifice :: "target \<Rightarrow> game \<Rightarrow> (game, game) outcome" where
  "sacrifice crd s =
     (case crd of
        TypeName ty \<Rightarrow>
          (if ty \<in> set TYPES then
             (case move_each GRAVEYARD ty (g_field s) s [] of
                Raised e s1 \<Rightarrow> Raised e s1
              | Ok (s1, remove) \<Rightarrow> bury_each remove s1)
           else Raised AttributeError s)
      | CardRef i \<Rightarrow> sacrifice_card i s)"


definition exile_card :: "nat \<Rightarrow> game \<Rightarrow> (game, game) outcome" where
  "exile_card crd s =
     (case Card_move EXILE (g_cards s crd) of
        Raised e c \<Rightarrow> Raised e s
      | Ok c' \<Rightarrow>
          (let s1 = set_card crd c' s
           in case list_remove crd (g_field s1) of
                None \<Rightarrow> Raised ValueError s1
              | Some fld \<Rightarrow>
                  (let s2 = s1\<lparr>g_field := fld\<rparr>
                   in case Card_type (g_cards s2 crd) of
                        Inl e \<Rightarrow> Raised e s2
                      | Inr t \<Rightarrow>
                          (if \<not> substr TOKEN t \<and> Some crd \<noteq> g_commander s2
                           then Ok (s2\<lparr>g_exiled := crd # g_exiled s2\<rparr>)
                           else Ok s2))))"


definition discard :: "target \<Rightarrow> game \<Rightarrow> (game, game) outcome" where
  "discard crd s =
     (case crd of
        TypeName ty \<Rightarrow> Raised AttributeError s
      | CardRef i \<Rightarrow>
          (let s1 = set_card i (Card_discard (g_cards s i)) s
           in case list_remove i (g_hand s1) of
                None \<Rightarrow> Raised ValueError s1
              | Some hnd \<Rightarrow> Ok (s1\<lparr>g_hand := hnd, g_grave := i # g_grave s1\<rparr>)))"

text \<open>\<^verbatim>\<open>draw(number)\<close>. The handler \<^verbatim>\<open>except IndexError: p2Win = True\<close> assigns a name
  that the function does not declare \<^verbatim>\<open>global\<close>: the assignment binds a local of
  \<^verbatim>\<open>draw\<close>, and the module's \<^verbatim>\<open>p2Win\<close> keeps its value.\<close>

fun draw_loop :: "nat \<Rightarrow> game \<Rightarrow> (game, game) outcome" where
  "draw_loop 0 s = Ok s"
| "draw_loop (Suc n) s =
     (case g_library s of
        [] \<Rightarrow> Raised IndexError s
      | crd # lib \<Rightarrow>
          (let s1 = s\<lparr>g_library := lib\<rparr>
           in case Card_draw (g_cards s1 crd) of
                Raised e c \<Rightarrow> Raised e s1
              | Ok c' \<Rightarrow>
                  (let s2 = set_card crd c' s1
                   in draw_loop n (s2\<lparr>g_hand := g_hand s2 @ [crd]\<rparr>))))"

definition draw :: "int \<Rightarrow> game \<Rightarrow> (game, game) outcome" where
  "draw number s =
     (case draw_loop (nat number) s of
        Ok s1 \<Rightarrow> Ok s1
      | Raised e s1 \<Rightarrow> (if e = IndexError then Ok s1 else Raised e s1))"

text \<open>\<^verbatim>\<open>mill(n)\<close> reads \<^verbatim>\<open>Card.GRVEYARD\<close>, an attribute the class does not have, in its
  first iteration, after \<^verbatim>\<open>library[0]\<close>.\<close>

definition mill :: "int \<Rightarrow> game \<Rightarrow> (game, game) outcome" where
  "mill n s =
     (if n \<le> 0 then Ok s
      else if g_library s = [] then Raised IndexError s
      else Raised AttributeError s)"

text \<open>\<^verbatim>\<open>reshuffle\<close>: the loop over the deck, then one \<^verbatim>\<open>shuffle\<close>.\<close>

fun reshuffle_each :: "nat list \<Rightarrow> game \<Rightarrow> (game, game) outcome" where
  "reshuffle_each [] s = Ok s"
| "reshuffle_each (crd # deck) s =
     (if \<not> Card_commander (g_cards s crd) then
        (case Card_move LIBRARY (g_cards s crd) of
           Raised e c \<Rightarrow> Raised e s
         | Ok c' \<Rightarrow>
             (let s1 = set_card crd c' s
              in reshuffle_each deck (s1\<lparr>g_library := g_library s1 @ [crd]\<rparr>)))
      else reshuffle_each deck s)"

definition reshuffle :: "game \<Rightarrow> (game, game) outcome" where
  "reshuffle s =
     (case reshuffle_each (g_deck s)
             (s\<lparr>g_library := [], g_hand := [], g_grave := [], g_exiled := [], g_field := []\<rparr>) of
        Raised e s1 \<Rightarrow> Raised e s1
      | Ok s1 \<Rightarrow> Ok (shuffle s1))"

subsection \<open>\<^verbatim>\<open>move(fromZone, toZone, cardArgs)\<close>\<close>

text \<open>The zone lists that \<^verbatim>\<open>fromZone\<close> is rebound to, and the values the variable takes
  after lines 1061 to 1073: a list, \<^verbatim>\<open>None\<close> (the command zone) or still a zone name.\<close>

datatype zlist = LibraryL | FieldL | HandL | GraveL | ExiledL

fun zget :: "zlist \<Rightarrow> game \<Rightarrow> nat list" where
  "zget LibraryL s = g_library s"
| "zget FieldL s = g_field s"
| "zget HandL s = g_hand s"
| "zget GraveL s = g_grave s"
| "zget ExiledL s = g_exiled s"

fun zset :: "zlist \<Rightarrow> nat list \<Rightarrow> game \<Rightarrow> game" where
  "zset LibraryL l s = s\<lparr>g_library := l\<rparr>"
| "zset FieldL l s = s\<lparr>g_field := l\<rparr>"
| "zset HandL l s = s\<lparr>g_hand := l\<rparr>"
| "zset GraveL l s = s\<lparr>g_grave := l\<rparr>"
| "zset ExiledL l s = s\<lparr>g_exiled := l\<rparr>"

datatype fromv = FromList zlist | FromNone | FromStr string

text \<open>Lines 1061 to 1073: the list for the zone name, and the flag \<^verbatim>\<open>shuffleLibrary\<close>.\<close>

definition move_from :: "string \<Rightarrow> fromv \<times> bool" where
  "move_from fromZone =
     (if fromZone = HAND then (FromList HandL, False)
      else if fromZone = BATTLEFIELD then (FromList FieldL, False)
      else if fromZone = EXILE then (FromList ExiledL, False)
      else if fromZone = GRAVEYARD then (FromList GraveL, False)
      else if fromZone = LIBRARY then (FromList LibraryL, True)
      else if fromZone = COMMAND then (FromNone, False)
      else (FromStr fromZone, False))"

text \<open>Lines 1077 to 1084: the top or bottom card of the library.\<close>

definition move_pick :: "fromv \<Rightarrow> game \<Rightarrow> error + (target option \<times> fromv)" where
  "move_pick fromZone s =
     (if fromZone = FromStr TOP \<or> fromZone = FromStr BOTTOM then
        (if g_library s = [] then Inl IndexError
         else Inr (Some (CardRef (if fromZone = FromStr TOP then hd (g_library s)
                                  else last (g_library s))),
                   FromList LibraryL))
      else Inr (None, fromZone))"

text \<open>Lines 1093 to 1099: the card leaves the list it comes from. A string has no
  method \<^verbatim>\<open>remove\<close>.\<close>

definition take_from :: "fromv \<Rightarrow> bool \<Rightarrow> nat \<Rightarrow> game \<Rightarrow> (game, game) outcome" where
  "take_from fromZone shuffleLibrary crd s =
     (case fromZone of
        FromList z \<Rightarrow>
          (if zget z s \<noteq> [] then
             (case list_remove crd (zget z s) of
                None \<Rightarrow> Raised ValueError s
              | Some l \<Rightarrow> Ok (if shuffleLibrary then shuffle (zset z l s) else zset z l s))
           else Ok s)
      | FromNone \<Rightarrow> Ok s
      | FromStr x \<Rightarrow> Raised AttributeError s)"

text \<open>Lines 1103 to 1119: the card enters the list of the target zone; the second
  component is \<^verbatim>\<open>toZone\<close> afterwards.\<close>

definition put_in :: "string \<Rightarrow> nat \<Rightarrow> game \<Rightarrow> game \<times> string" where
  "put_in toZone crd s =
     (if toZone = LIBRARY then (shuffle (s\<lparr>g_library := g_library s @ [crd]\<rparr>), toZone)
      else if toZone = TOP then (s\<lparr>g_library := crd # g_library s\<rparr>, LIBRARY)
      else if toZone = BOTTOM then (s\<lparr>g_library := g_library s @ [crd]\<rparr>, LIBRARY)
      else if toZone = BATTLEFIELD then (s\<lparr>g_field := g_field s @ [crd]\<rparr>, toZone)
      else if toZone = HAND then (s\<lparr>g_hand := g_hand s @ [crd]\<rparr>, toZone)
      else if toZone = EXILE then (s\<lparr>g_exiled := g_exiled s @ [crd]\<rparr>, toZone)
      else if toZone = GRAVEYARD then (s\<lparr>g_grave := crd # g_grave s\<rparr>, toZone)
      else (s, toZone))"

text \<open>Lines 1092 to 1123, the body of \<^verbatim>\<open>if card:\<close>. A type name that \<^verbatim>\<open>getCard\<close>
  returned is in no list (\<^verbatim>\<open>ValueError\<close>) and has no method \<^verbatim>\<open>type\<close>.\<close>

definition move_found :: "fromv \<Rightarrow> bool \<Rightarrow> string \<Rightarrow> target \<Rightarrow> game \<Rightarrow> (game, game) outcome" where
  "move_found fromZone shuffleLibrary toZone t s =
     (case t of
        TypeName ty \<Rightarrow>
          (case fromZone of
             FromList z \<Rightarrow> (if zget z s \<noteq> [] then Raised ValueError s else Raised AttributeError s)
           | _ \<Rightarrow> Raised AttributeError s)
      | CardRef crd \<Rightarrow>
          (case take_from fromZone shuffleLibrary crd s of
             Raised e s1 \<Rightarrow> Raised e s1
           | Ok s1 \<Rightarrow>
               (case Card_type (g_cards s1 crd) of
                  Inl e \<Rightarrow> Raised e s1
                | Inr ty \<Rightarrow>
                    (case (if \<not> substr TOKEN ty then put_in toZone crd s1 else (s1, toZone)) of
                       (s2, toZone2) \<Rightarrow>
                         (if toZone2 = COMMAND \<and> \<not> Card_commander (g_cards s2 crd)
                          then Raised ZoneError s2
                          else (case Card_move toZone2 (g_cards s2 crd) of
                                  Raised e c \<Rightarrow> Raised e s2
                                | Ok c' \<Rightarrow> Ok (set_card crd c' s2)))))))"

definition move :: "string \<Rightarrow> string \<Rightarrow> string list option \<Rightarrow> game \<Rightarrow> (game, game) outcome" where
  "move fromZone toZone cardArgs s =
     (case (getZoneNameFromString fromZone, getZoneNameFromString toZone) of
        (Some fromName, Some toName) \<Rightarrow>
          (case move_from fromName of
             (fromv, shuffleLibrary) \<Rightarrow>
               (if (fromv = FromStr TOP \<or> fromv = FromStr BOTTOM) \<and> cardArgs \<noteq> None
                then Raised ZoneError s
                else
                  (case move_pick fromv s of
                     Inl e \<Rightarrow> Raised e s
                   | Inr (picked, fromv1) \<Rightarrow>
                       (case (if cardArgs \<noteq> None \<and> cardArgs \<noteq> Some []
                              then map_sum id Some
                                     (getCard s (the cardArgs)
                                        (case fromv1 of FromList z \<Rightarrow> Some (zget z s) | _ \<Rightarrow> None)
                                        None)
                              else Inr picked) of
                          Inl e \<Rightarrow> Raised e s
                        | Inr None \<Rightarrow> Raised CardNotFoundError s
                        | Inr (Some t) \<Rightarrow> move_found fromv1 shuffleLibrary toName t s))))
      | _ \<Rightarrow> Raised ZoneError s)"

subsection \<open>\<^verbatim>\<open>play(card)\<close>\<close>

text \<open>The condition of line 1170, evaluated left to right with Python's short circuit.\<close>

definition playable :: "nat \<Rightarrow> game \<Rightarrow> error + bool" where
  "playable crd s =
     (if crd \<in> set (g_hand s) then Inr True
      else if Card_commander (g_cards s crd) then Inr True
      else (case Card_type (g_cards s crd) of
              Inl e \<Rightarrow> Inl e
            | Inr t \<Rightarrow>
                Inr (substr TOKEN t
                     \<or> (g_revealed s \<and> g_library s \<noteq> [] \<and> crd = hd (g_library s)))))"

text \<open>Lines 1184 to 1198: the card goes to the list of the zone it ended up in.\<close>

definition play_place :: "nat \<Rightarrow> game \<Rightarrow> (game, game) outcome" where
  "play_place crd s =
     (let z = Card_zone (g_cards s crd)
      in if z = GRAVEYARD then Ok (s\<lparr>g_grave := crd # g_grave s\<rparr>)
         else if z = EXILE then Ok (s\<lparr>g_exiled := crd # g_exiled s\<rparr>)
         else if z = BATTLEFIELD then Ok (s\<lparr>g_field := g_field s @ [crd]\<rparr>)
         else if z = LIBRARY then Ok (shuffle (s\<lparr>g_library := g_library s @ [crd]\<rparr>))
         else if z = BOTTOM then
           (let s1 = s\<lparr>g_library := g_library s @ [crd]\<rparr>
            in case Card_move LIBRARY (g_cards s1 crd) of
                 Raised e c \<Rightarrow> Raised e s1
               | Ok c' \<Rightarrow> Ok (set_card crd c' s1))
         else if z = TOP then
           (let s1 = s\<lparr>g_library := crd # g_library s\<rparr>
            in case Card_move LIBRARY (g_cards s1 crd) of
                 Raised e c \<Rightarrow> Raised e s1
               | Ok c' \<Rightarrow> Ok (set_card crd c' s1))
         else Ok s)"

definition play_card :: "nat \<Rightarrow> game \<Rightarrow> (game, game) outcome" where
  "play_card crd s =
     (case playable crd s of
        Inl e \<Rightarrow> Raised e s
      | Inr ok \<Rightarrow>
          (if ok then
             (let s1 = (if Some crd = g_commander s \<and> Card_zone (g_cards s crd) = COMMAND
                        then s\<lparr>g_commandPlayCount := g_commandPlayCount s + 1\<rparr> else s);
                  s2 = (if crd \<in> set (g_hand s1)
                        then s1\<lparr>g_hand := remove1 crd (g_hand s1)\<rparr> else s1);
                  s3 = (if g_library s2 \<noteq> [] \<and> crd = hd (g_library s2)
                        then s2\<lparr>g_library := tl (g_library s2)\<rparr> else s2);
                  s4 = set_card crd (Card_play (g_cards s3 crd)) s3
              in play_place crd s4)
           else (case Card_name (g_cards s crd) of
                   Inl e \<Rightarrow> Raised e s
                 | Inr n \<Rightarrow> Raised ZoneError s)))"

definition play :: "target \<Rightarrow> game \<Rightarrow> (game, game) outcome" where
  "play crd s =
     (case crd of
        TypeName ty \<Rightarrow> (if ty \<in> set TYPES then Ok s else Raised AttributeError s)
      | CardRef i \<Rightarrow> play_card i s)"

section \<open>Example objects\<close>

text \<open>
  Cards as the constructor leaves them: \<open>new_card\<close> has every modifier at zero, no
  keyword, no anthem and no other face, and sits in the library; \<open>bear\<close> is a vanilla
  2/2 creature, \<open>plains\<close> a land.
\<close>

definition new_card :: card where
  "new_card =
     \<lparr>c_name = [], c_cost = [], c_color = ''Colorless'', c_type = [],
      c_subtype = [], c_powerMod = 0, c_toughnessMod = 0, c_countersMod = 0,
      c_counters = 0, c_plusone = 0, c_summoningSickness = False,
      c_power = None, c_toughness = None,
      c_hasAnthem = False, c_anthemPower = 0, c_anthemToughness = 0,
      c_anthemType = [], c_anthemKeywords = [],
      c_anthemPowerBonus = 0, c_anthemToughnessBonus = 0, c_anthemKeywordMod = [],
      c_text = [], c_commander = False, c_flip = False, c_split = False,
      c_linked = False, c_zone = LIBRARY, c_tapped = False, c_transformed = False,
      c_keywords = [], c_keywordMods = [], c_facedown = False, c_morph = False,
      c_backSide = BackNone\<rparr>"

definition bear :: card where
  "bear = new_card\<lparr>c_name := ''Bear'', c_cost := ''1G'', c_color := ''Green'',
                   c_type := ''Creature'', c_subtype := ''Bear'',
                   c_power := Some 2, c_toughness := Some 2, c_summoningSickness := True\<rparr>"

definition plains :: card where
  "plains = new_card\<lparr>c_name := ''Plains'', c_type := ''Basic Land'', c_subtype := ''Plains''\<rparr>"

text \<open>A game with no card in any zone; its generator reverses the library.\<close>

definition new_game :: game where
  "new_game =
     \<lparr>g_cards = (\<lambda>i. new_card), g_deck = [], g_library = [], g_field = [], g_hand = [],
      g_grave = [], g_exiled = [], g_commander = None, g_p1Win = False, g_p2Win = False,
      g_GAME_OVER = False, g_revealed = False, g_commandPlayCount = 0,
      g_rng = (\<lambda>n xs. rev xs), g_shuffles = 0\<rparr>"

text \<open>
  A transform card as the loader builds it, on the battlefield and transformed. Both
  faces are marked by \<^verbatim>\<open>setTransform\<close>; the front face is a land, the other face,
  \<open>ormendahl\<close>, a legendary 9/7 creature.
\<close>

definition ormendahl :: cardbase where
  "ormendahl = morph_face\<lparr>c_name := ''Ormendahl'', c_cost := [], c_type := ''Legendary Creature'',
                          c_subtype := ''Demon'', c_power := Some 9, c_toughness := Some 7,
                          c_flip := True\<rparr>"

definition abbey :: card where
  "abbey =
     Card_transform
       (Card_linkBackSide ormendahl
          (new_card\<lparr>c_name := ''Westvale Abbey'', c_type := ''Land'', c_flip := True,
                     c_zone := BATTLEFIELD\<rparr>))"

text \<open>
  A creature with morph on the battlefield, as the constructor builds it from the rules
  text \<^verbatim>\<open>Morph 1G\<close>: the keyword \<^verbatim>\<open>Morph\<close>, the flag \<^verbatim>\<open>__morph\<close> and the morph face linked
  as the other face.
\<close>

definition morph_bear :: card where
  "morph_bear =
     Card_morphToken
       (bear\<lparr>c_text := ''Morph 1G'', c_keywords := [MORPH], c_morph := True,
              c_zone := BATTLEFIELD\<rparr>)"

text \<open>Two small games. In \<open>bear_in_hand\<close> card \<open>0\<close>, the bear, is in the hand and card
  \<open>1\<close>, the plains, is in exile; in \<open>bear_on_field\<close> the bear is on the battlefield
  instead.\<close>

definition bear_in_hand :: game where
  "bear_in_hand =
     new_game\<lparr>g_cards := (g_cards new_game)(0 := bear\<lparr>c_zone := HAND\<rparr>,
                                               1 := plains\<lparr>c_zone := EXILE\<rparr>),
               g_deck := [0, 1], g_hand := [0], g_exiled := [1]\<rparr>"


section \<open>Effective power, toughness and counters\<close>

lemma clamp0_max: "clamp0 v = max 0 v"
  by (simp add: clamp0_def max_def)

lemma Card_power_front:
  assumes "substr CREATURE (c_type c)" and "\<not> c_transformed c" and "\<not> c_facedown c"
    and "c_power c = Some p"
  shows "Card_power c = Inr (Some (max 0 (p + c_powerMod c + c_anthemPowerBonus c + c_plusone c)))"
  using assms by (simp add: Card_power_def shows_back_def clamp0_max)

lemma Card_power_back:
  assumes "substr CREATURE (c_type c)" and "c_transformed c \<or> c_facedown c"
    and "c_backSide c = BackCard b" and "c_power b = Some p"
  shows "Card_power c = Inr (Some (max 0 (p + c_powerMod c + c_anthemPowerBonus c + c_plusone c)))"
  using assms by (simp add: Card_power_def shows_back_def back_attr_def clamp0_max)

lemma Card_toughness_front:
  assumes "substr CREATURE (c_type c)" and "\<not> c_transformed c" and "\<not> c_facedown c"
    and "c_toughness c = Some t"
  shows "Card_toughness c =
           Inr (Some (max 0 (t + c_toughnessMod c + c_anthemToughnessBonus c + c_plusone c)))"
  using assms by (simp add: Card_toughness_def shows_back_def clamp0_max)

lemma Card_toughness_back:
  assumes "substr CREATURE (c_type c)" and "c_transformed c \<or> c_facedown c"
    and "c_backSide c = BackCard b" and "c_toughness b = Some t"
  shows "Card_toughness c =
           Inr (Some (max 0 (t + c_toughnessMod c + c_anthemToughnessBonus c + c_plusone c)))"
  using assms by (simp add: Card_toughness_def shows_back_def back_attr_def clamp0_max)

lemma Card_power_nonneg: "Card_power c = Inr (Some v) \<Longrightarrow> 0 \<le> v"
  by (auto simp: Card_power_def clamp0_def back_attr_def
           split: if_splits sum.splits option.splits backside.splits)

lemma Card_toughness_nonneg: "Card_toughness c = Inr (Some v) \<Longrightarrow> 0 \<le> v"
  by (auto simp: Card_toughness_def clamp0_def back_attr_def
           split: if_splits sum.splits option.splits backside.splits)

text \<open>
  For a card whose own type line (\<^verbatim>\<open>self.__type\<close>, the front face's) contains
  \<^verbatim>\<open>Creature\<close>, \<^verbatim>\<open>power()\<close> returns \<open>max 0 (base + powerMod + anthemPowerBonus + plusone)\<close>
  and \<^verbatim>\<open>toughness()\<close> returns \<open>max 0 (base + toughnessMod + anthemToughnessBonus + plusone)\<close>,
  with the same \<open>plusone\<close>; the base is the attribute of the face that shows, the card's
  own when it is neither transformed nor face down and the linked other face's when it
  is. Whatever number either accessor returns is not negative.
\<close>

theorem power_toughness_law:
  assumes "substr CREATURE (c_type c)"
  shows "(\<not> c_transformed c \<and> \<not> c_facedown c \<longrightarrow>
            (\<forall>p. c_power c = Some p \<longrightarrow>
               Card_power c =
                 Inr (Some (max 0 (p + c_powerMod c + c_anthemPowerBonus c + c_plusone c))))
          \<and> (\<forall>t. c_toughness c = Some t \<longrightarrow>
               Card_toughness c =
                 Inr (Some (max 0 (t + c_toughnessMod c + c_anthemToughnessBonus c + c_plusone c)))))
       \<and> (c_transformed c \<or> c_facedown c \<longrightarrow>
            (\<forall>b p. c_backSide c = BackCard b \<longrightarrow> c_power b = Some p \<longrightarrow>
               Card_power c =
                 Inr (Some (max 0 (p + c_powerMod c + c_anthemPowerBonus c + c_plusone c))))
          \<and> (\<forall>b t. c_backSide c = BackCard b \<longrightarrow> c_toughness b = Some t \<longrightarrow>
               Card_toughness c =
                 Inr (Some (max 0 (t + c_toughnessMod c + c_anthemToughnessBonus c + c_plusone c)))))
       \<and> (\<forall>v. Card_power c = Inr (Some v) \<longrightarrow> 0 \<le> v)
       \<and> (\<forall>v. Card_toughness c = Inr (Some v) \<longrightarrow> 0 \<le> v)"
proof (intro conjI impI allI)
  fix p assume "\<not> c_transformed c \<and> \<not> c_facedown c" "c_power c = Some p"
  then show "Card_power c =
      Inr (Some (max 0 (p + c_powerMod c + c_anthemPowerBonus c + c_plusone c)))"
    using assms by (simp add: Card_power_front)
next
  fix t assume "\<not> c_transformed c \<and> \<not> c_facedown c" "c_toughness c = Some t"
  then show "Card_toughness c =
      Inr (Some (max 0 (t + c_toughnessMod c + c_anthemToughnessBonus c + c_plusone c)))"
    using assms by (simp add: Card_toughness_front)
next
  fix b p assume "c_transformed c \<or> c_facedown c" "c_backSide c = BackCard b" "c_power b = Some p"
  then show "Card_power c =
      Inr (Some (max 0 (p + c_powerMod c + c_anthemPowerBonus c + c_plusone c)))"
    using assms by (rule_tac Card_power_back)
next
  fix b t assume "c_transformed c \<or> c_facedown c" "c_backSide c = BackCard b" "c_toughness b = Some t"
  then show "Card_toughness c =
      Inr (Some (max 0 (t + c_toughnessMod c + c_anthemToughnessBonus c + c_plusone c)))"
    using assms by (rule_tac Card_toughness_back)
next
  fix v assume "Card_power c = Inr (Some v)"
  then show "0 \<le> v" by (rule Card_power_nonneg)
next
  fix v assume "Card_toughness c = Inr (Some v)"
  then show "0 \<le> v" by (rule Card_toughness_nonneg)
qed

text \<open>The law at a 2/2 with \<open>-5\<close> power until end of turn, an anthem of \<open>+1/+1\<close> and one
  \<open>+1/+1\<close> counter: power \<open>max 0 (2 - 5 + 1 + 1) = 0\<close>, toughness \<open>2 + 0 + 1 + 1 = 4\<close>;
  and at the same card face down over the 2/2 morph face.\<close>

theorem power_toughness_law_witness:
  "substr CREATURE (c_type (bear\<lparr>c_powerMod := - 5, c_anthemPowerBonus := 1,
                                  c_anthemToughnessBonus := 1, c_plusone := 1\<rparr>))
   \<and> Card_power (bear\<lparr>c_powerMod := - 5, c_anthemPowerBonus := 1,
                       c_anthemToughnessBonus := 1, c_plusone := 1\<rparr>) = Inr (Some 0)
   \<and> Card_toughness (bear\<lparr>c_powerMod := - 5, c_anthemPowerBonus := 1,
                           c_anthemToughnessBonus := 1, c_plusone := 1\<rparr>) = Inr (Some 4)
   \<and> Card_power (bear\<lparr>c_power := Some 5, c_plusone := 1, c_facedown := True,
                       c_backSide := BackCard morph_face\<rparr>) = Inr (Some 3)"
proof -
  let ?c = "bear\<lparr>c_powerMod := - 5, c_anthemPowerBonus := 1,
                  c_anthemToughnessBonus := 1, c_plusone := 1\<rparr>"
  let ?d = "bear\<lparr>c_power := Some 5, c_plusone := 1, c_facedown := True,
                  c_backSide := BackCard morph_face\<rparr>"
  have hc: "substr CREATURE (c_type ?c)"
    by (simp add: bear_def new_card_def CREATURE_def)
  have hd: "substr CREATURE (c_type ?d)"
    by (simp add: bear_def new_card_def CREATURE_def)
  have "Card_power ?c = Inr (Some 0)" "Card_toughness ?c = Inr (Some 4)"
    using power_toughness_law [OF hc] by (simp_all add: bear_def new_card_def)
  moreover have "Card_power ?d = Inr (Some 3)"
    using power_toughness_law [OF hd] by (simp add: bear_def new_card_def morph_face_def)
  ultimately show ?thesis using hc by simp
qed

lemma abbey_fields:
  "c_type abbey = ''Land''" "c_transformed abbey" "c_flip abbey" "c_zone abbey = BATTLEFIELD"
  "c_backSide abbey = BackCard ormendahl" "c_power ormendahl = Some 9"
  "c_toughness ormendahl = Some 7" "c_type ormendahl = ''Legendary Creature''"
  by (simp_all add: abbey_def ormendahl_def Card_transform_def Card_linkBackSide_def
        new_card_def morph_face_def)

text \<open>
  Claim C1, at the transformed \<open>abbey\<close>, whose front face is a land and whose other
  face, the one that shows, is a 9/7 creature. \<^verbatim>\<open>type()\<close> reports the type line of the
  face that shows, \<^verbatim>\<open>Legendary Creature\<close>: the card is a creature to \<^verbatim>\<open>stateBased\<close> and to
  every other reader of \<^verbatim>\<open>type()\<close>. But \<^verbatim>\<open>power()\<close> and \<^verbatim>\<open>toughness()\<close> test
  \<^verbatim>\<open>Card.CREATURE in self.__type\<close>, the front face's type line, and return \<^verbatim>\<open>None\<close>, where
  the claim says \<open>max 0 (9 + 0 + 0 + 0) = 9\<close> and \<open>max 0 (7 + 0 + 0 + 0) = 7\<close>. The
  modifiers do not matter: with a \<open>+1/+1\<close> counter and \<open>+2\<close> power the result is still
  \<^verbatim>\<open>None\<close>.
\<close>

theorem power_of_transformed_land:
  "Card_type abbey = Inr ''Legendary Creature''
   \<and> substr CREATURE ''Legendary Creature''
   \<and> c_power ormendahl = Some 9 \<and> c_toughness ormendahl = Some 7
   \<and> Card_power abbey = Inr None
   \<and> Card_toughness abbey = Inr None
   \<and> Card_power (abbey\<lparr>c_powerMod := 2, c_plusone := 1\<rparr>) = Inr None
   \<and> Card_toughness (abbey\<lparr>c_powerMod := 2, c_plusone := 1\<rparr>) = Inr None"
  by (simp add: Card_type_def Card_power_def Card_toughness_def shows_back_def back_attr_def
        abbey_fields CREATURE_def)

text \<open>
  Claim C10. \<^verbatim>\<open>counters()\<close> returns the base counters plus the counter delta plus the
  absolute value of the \<open>+1/+1\<close> delta, so a negative delta adds its magnitude; the base
  counters are those of the linked other face while the card is transformed or face
  down.
\<close>

theorem counters_law:
  "(\<not> c_transformed c \<and> \<not> c_facedown c \<longrightarrow>
      Card_counters c = Inr (c_counters c + c_countersMod c + \<bar>c_plusone c\<bar>)
      \<and> (c_plusone c < 0 \<longrightarrow>
           Card_counters c = Inr (c_counters c + c_countersMod c - c_plusone c)))
   \<and> (c_transformed c \<or> c_facedown c \<longrightarrow>
        (\<forall>b. c_backSide c = BackCard b \<longrightarrow>
           Card_counters c = Inr (c_counters b + c_countersMod c + \<bar>c_plusone c\<bar>)
           \<and> (c_plusone c < 0 \<longrightarrow>
                Card_counters c = Inr (c_counters b + c_countersMod c - c_plusone c))))"
  by (simp add: Card_counters_def shows_back_def back_attr_def)

text \<open>The law at a card with three base counters, one more counter and two \<open>-1/-1\<close>
  counters (six in all), and at the same card transformed over a face with four base
  counters (seven in all).\<close>

theorem counters_law_witness:
  "Card_counters (new_card\<lparr>c_counters := 3, c_countersMod := 1, c_plusone := - 2\<rparr>) = Inr 6
   \<and> Card_counters (new_card\<lparr>c_counters := 3, c_countersMod := 1, c_plusone := - 2,
                              c_transformed := True,
                              c_backSide := BackCard (morph_face\<lparr>c_counters := 4\<rparr>)\<rparr>) = Inr 7"
  using counters_law [of "new_card\<lparr>c_counters := 3, c_countersMod := 1, c_plusone := - 2\<rparr>"]
        counters_law [of "new_card\<lparr>c_counters := 3, c_countersMod := 1, c_plusone := - 2,
                              c_transformed := True,
                              c_backSide := BackCard (morph_face\<lparr>c_counters := 4\<rparr>)\<rparr>"]
  by (simp add: new_card_def morph_face_def)

section \<open>Accessors and the face that shows\<close>

lemmas zone_defs =
  BATTLEFIELD_def HAND_def LIBRARY_def GRAVEYARD_def EXILE_def TOP_def BOTTOM_def COMMAND_def

lemmas type_defs =
  ARTIFACT_def CREATURE_def ENCHANTMENT_def EMBLEM_def INSTANT_def LAND_def
  PLANESWALKER_def SORCERY_def TOKEN_def

lemmas keyword_defs = KEYWORDS_def HASTE_def MORPH_def MEGAMORPH_def INDESTRUCTIBLE_def

lemmas string_defs = lower_def lower_chr_def upper_chr_def rstrip_def strip_def is_space_def

text \<open>Name, colour, type line, subtype and rules text are those of the linked other
  face while the card is transformed or face down, and the card's own otherwise.\<close>

lemma redirecting_accessors:
  assumes "c_backSide c = BackCard b"
  shows "Card_name c = Inr (if c_transformed c \<or> c_facedown c then c_name b else c_name c)"
    and "Card_color c = Inr (if c_transformed c \<or> c_facedown c then c_color b else c_color c)"
    and "Card_type c = Inr (if c_transformed c \<or> c_facedown c then c_type b else c_type c)"
    and "Card_subtype c = Inr (if c_transformed c \<or> c_facedown c then c_subtype b else c_subtype c)"
    and "Card_rulestext c = Inr (if c_transformed c \<or> c_facedown c then c_text b else c_text c)"
  using assms
  by (simp_all add: Card_name_def Card_color_def Card_type_def Card_subtype_def
        Card_rulestext_def shows_back_def back_attr_def)

text \<open>
  Claim C2, at a transformed card whose front face has flying and whose other face, the
  \<open>Wolf\<close>, has trample: \<^verbatim>\<open>name()\<close> reports the other face, as the claim says, but
  \<^verbatim>\<open>keywords()\<close> never reads \<^verbatim>\<open>__backSide\<close> and reports the front face's flying.
\<close>

theorem keywords_of_transformed_card:
  "Card_name (bear\<lparr>c_keywords := [''Flying''], c_flip := True, c_transformed := True,
                    c_backSide := BackCard (morph_face\<lparr>c_name := ''Wolf'',
                                                      c_keywords := [''Trample'']\<rparr>)\<rparr>)
     = Inr ''Wolf''
   \<and> Card_keywords (bear\<lparr>c_keywords := [''Flying''], c_flip := True, c_transformed := True,
                          c_backSide := BackCard (morph_face\<lparr>c_name := ''Wolf'',
                                                            c_keywords := [''Trample'']\<rparr>)\<rparr>)
     = [''Flying'']"
  by (simp add: Card_name_def Card_keywords_def shows_back_def back_attr_def
        bear_def new_card_def morph_face_def)

section \<open>Mutators off the battlefield\<close>

text \<open>The four stat mutators test \<^verbatim>\<open>self.__zone == Card.BATTLEFIELD\<close> and leave a card
  elsewhere as it is.\<close>

lemma stat_mutators_off_battlefield:
  assumes "c_zone c \<noteq> BATTLEFIELD"
  shows "Card_modPower n c = c" and "Card_modToughness n c = c"
    and "Card_modCounters n c = c" and "Card_modPlusOne n c = c"
  using assms
  by (simp_all add: Card_modPower_def Card_modToughness_def Card_modCounters_def
        Card_modPlusOne_def)

lemma modCounters_floor:
  "0 \<le> c_counters c + c_countersMod c \<Longrightarrow>
     0 \<le> c_counters (Card_modCounters n c) + c_countersMod (Card_modCounters n c)"
  by (simp add: Card_modCounters_def Let_def)

lemma modCounters_floor_battlefield:
  "c_zone c = BATTLEFIELD \<Longrightarrow>
     0 \<le> c_counters (Card_modCounters n c) + c_countersMod (Card_modCounters n c)"
  by (simp add: Card_modCounters_def Let_def)

text \<open>
  Claim C3, at a bear in the hand that is granted flying: \<^verbatim>\<open>modKeywords\<close> has no test of
  the zone, so the keyword is appended to \<^verbatim>\<open>__keywordMods\<close> and \<^verbatim>\<open>keywords()\<close> reports
  it, where the claim says the card stays as it was.
\<close>

theorem modKeywords_in_hand:
  "c_zone (bear\<lparr>c_zone := HAND\<rparr>) \<noteq> BATTLEFIELD
   \<and> Card_modKeywords ''Flying'' (bear\<lparr>c_zone := HAND\<rparr>)
       = bear\<lparr>c_zone := HAND, c_keywordMods := [''Flying'']\<rparr>
   \<and> Card_keywords (bear\<lparr>c_zone := HAND\<rparr>) = []
   \<and> Card_keywords (Card_modKeywords ''Flying'' (bear\<lparr>c_zone := HAND\<rparr>)) = [''Flying'']"
  by (simp add: Card_modKeywords_def Card_keywords_def bear_def new_card_def
        keyword_defs zone_defs)

section \<open>Keyword extraction\<close>

text \<open>
  Claim C5, at two rules texts of two lines each (\<open>CHR 0x0A\<close> is the line feed).
  \<^verbatim>\<open>validLine\<close> is set once before the loop over the lines: after the line
  \<^verbatim>\<open>Draw a card.\<close> it stays false, and the line \<^verbatim>\<open>Flying\<close>, all of whose tokens are
  keywords, contributes nothing. \<^verbatim>\<open>things\<close> is never emptied either: after the line
  \<^verbatim>\<open>Flying\<close> the line \<^verbatim>\<open>Haste\<close> appends flying a second time. On one line the
  extraction does what the claim says.
\<close>

theorem parseText_lines_not_independent:
  "parseText_keywords (''Draw a card.'' @ [CHR 0x0A] @ ''Flying'') = []
   \<and> parseText_keywords ''Flying'' = [''Flying'']
   \<and> parseText_keywords (''Flying'' @ [CHR 0x0A] @ ''Haste'')
       = [''Flying'', ''Flying'', ''Haste'']
   \<and> parseText_keywords ''Flying, vigilance'' = [''Flying'', ''Vigilance'']
   \<and> parseText_keywords ''Flying, draw a card'' = []"
  by (simp add: parseText_keywords_def keyword_defs string_defs)

section \<open>Leaving the battlefield\<close>

lemma Card_move_leaves:
  assumes "c_zone c = BATTLEFIELD" and "zone \<noteq> BATTLEFIELD" and "Card_move zone c = Ok c'"
  shows "\<exists>z. c' = Card_leave (c\<lparr>c_zone := z\<rparr>)"
  using assms by (auto simp: Card_move_def Let_def split: if_splits)

text \<open>
  What \<^verbatim>\<open>leave\<close> does reset. The power, toughness and counter deltas are zero and the
  card is untapped; a creature without haste among its own keywords (\<^verbatim>\<open>__keywords\<close>) is
  summoning sick, and on any other card the flag is as it was; a transform card that was
  transformed and not face down shows its front face again, and a card that showed its
  front face still does. The keywords granted until end of turn (\<^verbatim>\<open>__keywordMods\<close>) and
  the flag \<^verbatim>\<open>__facedown\<close> are as they were.
\<close>

lemma leave_resets:
  "c_powerMod (Card_leave c) = 0 \<and> c_toughnessMod (Card_leave c) = 0
   \<and> c_countersMod (Card_leave c) = 0 \<and> \<not> Card_tapped (Card_leave c)
   \<and> (substr CREATURE (c_type c) \<and> HASTE \<notin> set (c_keywords c) \<longrightarrow>
        c_summoningSickness (Card_leave c) \<and> Card_summonSick (Card_leave c))
   \<and> (\<not> (substr CREATURE (c_type c) \<and> HASTE \<notin> set (c_keywords c)) \<longrightarrow>
        c_summoningSickness (Card_leave c) = c_summoningSickness c)
   \<and> (c_flip c \<and> c_transformed c \<and> \<not> c_facedown c \<longrightarrow>
        \<not> c_transformed (Card_leave c) \<and> \<not> c_facedown (Card_leave c)
        \<and> Card_name (Card_leave c) = Inr (c_name c)
        \<and> Card_type (Card_leave c) = Inr (c_type c))
   \<and> (\<not> c_transformed c \<and> \<not> c_facedown c \<longrightarrow>
        \<not> c_transformed (Card_leave c) \<and> \<not> c_facedown (Card_leave c)
        \<and> Card_name (Card_leave c) = Inr (c_name c)
        \<and> Card_type (Card_leave c) = Inr (c_type c))"
  by (simp add: Card_leave_def Card_transform_def Card_summonSick_def Card_tapped_def
        Card_name_def Card_type_def shows_back_def Let_def)

lemma leave_keeps:
  "c_keywordMods (Card_leave c) = c_keywordMods c"
  "Card_keywords (Card_leave c) = Card_keywords c"
  "c_facedown (Card_leave c) = c_facedown c"
  "c_type (Card_leave c) = c_type c"
  "c_commander (Card_leave c) = c_commander c"
  "c_zone (Card_leave c) = c_zone c"
  by (simp_all add: Card_leave_def Card_transform_def Card_keywords_def Let_def)

text \<open>The constructor's reading of the rules text of \<open>morph_bear\<close>.\<close>

lemma parseText_morph: "parseText ''Morph 1G'' = [MORPH]"
  by (simp add: parseText_def parseText_keywords_def keyword_defs string_defs)

lemma morph_bear_fields:
  "c_zone morph_bear = BATTLEFIELD" "c_morph morph_bear" "\<not> c_facedown morph_bear"
  "\<not> c_transformed morph_bear" "\<not> c_flip morph_bear" "c_name morph_bear = ''Bear''"
  "c_backSide morph_bear = BackCard morph_face" "c_name morph_face = ''Morph''"
  "\<not> c_commander morph_bear" "c_type morph_bear = ''Creature''"
  by (simp_all add: morph_bear_def Card_morphToken_def Card_linkBackSide_def bear_def
        new_card_def morph_face_def)

text \<open>
  Claim C7, at two cards on the battlefield. The first is \<open>morph_bear\<close> turned face down
  by \<^verbatim>\<open>morph()\<close> (the command \<^verbatim>\<open>facedown\<close>): it shows the morph face. When it leaves the
  battlefield for the graveyard, \<^verbatim>\<open>leave\<close> sees \<^verbatim>\<open>__facedown\<close> and calls \<^verbatim>\<open>transform()\<close>,
  which flips \<^verbatim>\<open>__transformed\<close> of a transform card only and never touches \<^verbatim>\<open>__facedown\<close>:
  the card is still face down and still reports the name \<^verbatim>\<open>Morph\<close>, where the claim says
  it is reverted to its front face. The second is a bear that was granted flying until
  end of turn: after \<^verbatim>\<open>leave\<close> the granted keyword is still there, where the claim says
  the temporary modifiers are reset, and where \<^verbatim>\<open>endTurn\<close> clears it together with the
  power and toughness deltas.
\<close>

theorem leave_keeps_card_face_down:
  "Card_zone morph_bear = BATTLEFIELD
   \<and> Card_name morph_bear = Inr ''Bear''
   \<and> Card_facedown (Card_morph morph_bear)
   \<and> Card_name (Card_morph morph_bear) = Inr ''Morph''
   \<and> Card_move GRAVEYARD (Card_morph morph_bear)
       = Ok (Card_leave ((Card_morph morph_bear)\<lparr>c_zone := GRAVEYARD\<rparr>))
   \<and> Card_facedown (Card_leave ((Card_morph morph_bear)\<lparr>c_zone := GRAVEYARD\<rparr>))
   \<and> Card_name (Card_leave ((Card_morph morph_bear)\<lparr>c_zone := GRAVEYARD\<rparr>)) = Inr ''Morph''
   \<and> Card_keywords (Card_modKeywords ''Flying'' (bear\<lparr>c_zone := BATTLEFIELD\<rparr>)) = [''Flying'']
   \<and> Card_keywords (Card_leave (Card_modKeywords ''Flying'' (bear\<lparr>c_zone := BATTLEFIELD\<rparr>)))
       = [''Flying'']
   \<and> Card_keywords (Card_endTurn (Card_modKeywords ''Flying'' (bear\<lparr>c_zone := BATTLEFIELD\<rparr>)))
       = []"
  by (simp add: Card_zone_def Card_name_def Card_facedown_def Card_morph_def Card_move_def
        Card_leave_def Card_transform_def Card_keywords_def Card_modKeywords_def
        Card_endTurn_def shows_back_def back_attr_def morph_bear_fields
        bear_def new_card_def keyword_defs zone_defs type_defs Let_def)

section \<open>Drawing from an empty library\<close>

lemma draw_empty_library: "g_library s = [] \<Longrightarrow> draw n s = Ok s"
  by (cases "nat n") (simp_all add: draw_def)

lemma draw_loop_flags:
  "draw_loop n s = Ok s' \<or> draw_loop n s = Raised e s' \<Longrightarrow>
     g_p1Win s' = g_p1Win s \<and> g_p2Win s' = g_p2Win s \<and> g_GAME_OVER s' = g_GAME_OVER s"
proof (induction n arbitrary: s)
  case 0
  then show ?case by auto
next
  case (Suc n)
  show ?case
  proof (cases "g_library s")
    case Nil
    with Suc.prems show ?thesis by auto
  next
    case (Cons crd lib)
    show ?thesis
    proof (cases "Card_draw (g_cards (s\<lparr>g_library := lib\<rparr>) crd)")
      case (Ok c')
      let ?s2 = "(set_card crd c' (s\<lparr>g_library := lib\<rparr>))
                  \<lparr>g_hand := g_hand (set_card crd c' (s\<lparr>g_library := lib\<rparr>)) @ [crd]\<rparr>"
      from Suc.prems Cons Ok
      have "draw_loop n ?s2 = Ok s' \<or> draw_loop n ?s2 = Raised e s'"
        by (simp add: Let_def)
      from Suc.IH [OF this] show ?thesis by (simp add: set_card_def)
    next
      case (Raised e' c)
      with Suc.prems Cons show ?thesis by (auto simp: Let_def)
    qed
  qed
qed

text \<open>No call of \<^verbatim>\<open>draw\<close> changes a win flag.\<close>

lemma draw_keeps_flags:
  assumes "draw n s = Ok s' \<or> draw n s = Raised e s'"
  shows "g_p2Win s' = g_p2Win s \<and> g_p1Win s' = g_p1Win s"
proof (cases "draw_loop (nat n) s")
  case (Ok s1)
  with assms have "s' = s1" by (auto simp: draw_def)
  with Ok draw_loop_flags [of "nat n" s s' e] show ?thesis by simp
next
  case (Raised e1 s1)
  with assms have "s' = s1" by (auto simp: draw_def split: if_splits)
  with Raised draw_loop_flags [of "nat n" s s' e1] show ?thesis by simp
qed

text \<open>
  Claim C9, at a game whose library is empty and in which nobody has won. \<^verbatim>\<open>draw(1)\<close>
  returns without an exception, as the claim says, but the game is exactly as it was:
  \<^verbatim>\<open>p2Win\<close> is still false, and \<^verbatim>\<open>checkVictory\<close> afterwards does not end the game.
\<close>

theorem draw_empty_library_sets_no_flag:
  "g_library new_game = [] \<and> draw 1 new_game = Ok new_game
   \<and> \<not> g_p2Win new_game \<and> \<not> g_p1Win new_game
   \<and> \<not> g_GAME_OVER (checkVictory new_game)"
  by (simp add: draw_def checkVictory_def new_game_def)

section \<open>Moving a card between zones\<close>

lemma zone_names:
  "getZoneNameFromString ''hand'' = Some HAND"
  "getZoneNameFromString ''command'' = Some COMMAND"
  "getZoneNameFromString ''exile'' = Some EXILE"
  by (simp_all add: getZoneNameFromString_def ZONES_def zone_defs string_defs)

lemma bear_in_hand_fields:
  "g_hand bear_in_hand = [0]" "g_exiled bear_in_hand = [1]" "g_library bear_in_hand = []"
  "g_field bear_in_hand = []" "g_grave bear_in_hand = []"
  "g_cards bear_in_hand 0 = bear\<lparr>c_zone := HAND\<rparr>"
  "g_cards bear_in_hand 1 = plains\<lparr>c_zone := EXILE\<rparr>"
  "g_shuffles bear_in_hand = 0" "\<not> g_revealed bear_in_hand" "g_commander bear_in_hand = None"
  by (simp_all add: bear_in_hand_def new_game_def)


text \<open>\<^verbatim>\<open>getCard(["bear"], hand)\<close> finds the bear in the hand of \<open>bear_in_hand\<close>.\<close>

lemma getCard_bear: "getCard bear_in_hand [''bear''] (Some [0]) None = Inr (CardRef 0)"
  by (simp add: getCard_def py_int_def digit_val_def search_zone_def quoted_def endswith_def
        name_has_def Card_name_def shows_back_def TYPES_def type_defs string_defs
        bear_in_hand_fields bear_def new_card_def)

text \<open>
  Claim C6, at \<^verbatim>\<open>move("hand", "command", ["bear"])\<close> in the game \<open>bear_in_hand\<close>. The bear
  is not the commander, so \<^verbatim>\<open>move\<close> raises \<^verbatim>\<open>ZoneError\<close>; but the test comes after
  \<^verbatim>\<open>fromZone.remove(card)\<close>, and the state the exception leaves behind is not the one the
  operation started in: the hand is empty, and the bear, whose zone tag still says
  \<^verbatim>\<open>Hand\<close>, is in none of the five zone lists.
\<close>

theorem move_to_command_loses_card:
  "g_hand bear_in_hand = [0]
   \<and> move ''hand'' ''command'' (Some [''bear'']) bear_in_hand
       = Raised ZoneError (bear_in_hand\<lparr>g_hand := []\<rparr>)
   \<and> bear_in_hand\<lparr>g_hand := []\<rparr> \<noteq> bear_in_hand
   \<and> 0 \<notin> set (g_library (bear_in_hand\<lparr>g_hand := []\<rparr>) @ g_field (bear_in_hand\<lparr>g_hand := []\<rparr>)
              @ g_hand (bear_in_hand\<lparr>g_hand := []\<rparr>) @ g_grave (bear_in_hand\<lparr>g_hand := []\<rparr>)
              @ g_exiled (bear_in_hand\<lparr>g_hand := []\<rparr>))
   \<and> Card_zone (g_cards (bear_in_hand\<lparr>g_hand := []\<rparr>) 0) = HAND"
proof -
  have "move ''hand'' ''command'' (Some [''bear'']) bear_in_hand
          = Raised ZoneError (bear_in_hand\<lparr>g_hand := []\<rparr>)"
    by (simp add: move_def zone_names move_from_def move_pick_def bear_in_hand_fields
          getCard_bear move_found_def take_from_def list_remove_def Card_type_def
          shows_back_def put_in_def Card_commander_def zone_defs type_defs bear_def
          new_card_def)
  moreover have "bear_in_hand\<lparr>g_hand := []\<rparr> \<noteq> bear_in_hand"
  proof
    assume "bear_in_hand\<lparr>g_hand := []\<rparr> = bear_in_hand"
    then have "g_hand (bear_in_hand\<lparr>g_hand := []\<rparr>) = g_hand bear_in_hand" by simp
    then show False by (simp add: bear_in_hand_fields)
  qed
  ultimately show ?thesis by (simp add: bear_in_hand_fields Card_zone_def)
qed

section \<open>The order of the graveyard, exile and library lists\<close>

text \<open>
  The commands that put a card into the graveyard or into exile insert it at index 0:
  \<^verbatim>\<open>kill\<close>, \<^verbatim>\<open>sacrifice\<close> and \<^verbatim>\<open>discard\<close> with \<^verbatim>\<open>grave.insert(0, card)\<close>, \<^verbatim>\<open>exile\<close> with
  \<^verbatim>\<open>exiled.insert(0, card)\<close>. (A token or the commander is put in neither list.)
\<close>

lemma kill_card_grave:
  "kill_card i s = Ok s' \<Longrightarrow> g_grave s' = g_grave s \<or> g_grave s' = i # g_grave s"
  by (auto simp: kill_card_def Let_def set_card_def
           split: if_splits outcome.splits option.splits sum.splits)

lemma sacrifice_card_grave:
  "sacrifice_card i s = Ok s' \<Longrightarrow> g_grave s' = g_grave s \<or> g_grave s' = i # g_grave s"
  by (auto simp: sacrifice_card_def Let_def set_card_def
           split: if_splits outcome.splits option.splits sum.splits)

lemma exile_card_exiled:
  "exile_card i s = Ok s' \<Longrightarrow> g_exiled s' = g_exiled s \<or> g_exiled s' = i # g_exiled s"
  by (auto simp: exile_card_def Let_def set_card_def
           split: if_splits outcome.splits option.splits sum.splits)

lemma discard_grave: "discard (CardRef i) s = Ok s' \<Longrightarrow> g_grave s' = i # g_grave s"
  by (auto simp: discard_def Let_def set_card_def split: option.splits)

text \<open>The lists of \<^verbatim>\<open>move\<close>: the graveyard takes the card at index 0, the library takes it
  at the end and is shuffled at once, exile takes it at the end.\<close>

lemma put_in_lists:
  "fst (put_in GRAVEYARD i s) = s\<lparr>g_grave := i # g_grave s\<rparr>"
  "fst (put_in LIBRARY i s) = shuffle (s\<lparr>g_library := g_library s @ [i]\<rparr>)"
  "fst (put_in EXILE i s) = s\<lparr>g_exiled := g_exiled s @ [i]\<rparr>"
  by (simp_all add: put_in_def zone_defs)


end
